theory Spec2Isabelle
  imports
    Complex_Main
    "HOL-Library.List_Lexorder"
    "HOL-Library.Product_Lexorder"
    "HOL-Library.Multiset"
    "HOL-Library.AList"
begin

section \<open>Strings and calendar dates\<close>

text \<open>
  A Python \<open>str\<close> is a sequence of Unicode code points, compared lexicographically by
  code point. It is modelled as a list of naturals with the lexicographic order of
  \<open>List_Lexorder\<close>. The source's Japanese literals are written out as code points.
\<close>

type_synonym pystr = "nat list"

text \<open>
  A \<open>datetime.date\<close> is modelled by its proleptic Gregorian ordinal (\<open>date.toordinal()\<close>),
  so that \<open>(d1 - d2).days\<close> is integer subtraction and \<open>d + timedelta(days=k)\<close> is addition.
  The conversions between ordinals and year/month/day follow the \<open>datetime\<close> module.
\<close>

type_synonym date = int

definition is_leap :: "int \<Rightarrow> bool" where
  "is_leap year = (year mod 4 = 0 \<and> (year mod 100 \<noteq> 0 \<or> year mod 400 = 0))"

definition days_before_year :: "int \<Rightarrow> int" where
  "days_before_year year =
     (let y = year - 1 in y * 365 + y div 4 - y div 100 + y div 400)"

definition DAYS_IN_MONTH :: "int list" where
  "DAYS_IN_MONTH = [-1, 31, 28, 31, 30, 31, 30, 31, 31, 30, 31, 30, 31]"

definition DAYS_BEFORE_MONTH :: "int list" where
  "DAYS_BEFORE_MONTH = [-1, 0, 31, 59, 90, 120, 151, 181, 212, 243, 273, 304, 334]"

definition days_before_month :: "int \<Rightarrow> int \<Rightarrow> int" where
  "days_before_month year month =
     DAYS_BEFORE_MONTH ! nat month + (if month > 2 \<and> is_leap year then 1 else 0)"

definition ymd2ord :: "int \<Rightarrow> int \<Rightarrow> int \<Rightarrow> date" where
  "ymd2ord year month day = days_before_year year + days_before_month year month + day"

definition ord2ymd :: "date \<Rightarrow> int \<times> int \<times> int" where
  "ord2ymd ordinal =
     (let n0 = ordinal - 1;
          n400 = n0 div 146097; na = n0 mod 146097;
          n100 = na div 36524; nb = na mod 36524;
          n4 = nb div 1461; nc = nb mod 1461;
          n1 = nc div 365; n = nc mod 365;
          year = n400 * 400 + 1 + n100 * 100 + n4 * 4 + n1
      in if n1 = 4 \<or> n100 = 4 then (year - 1, 12, 31)
         else
           let leapyear = (n1 = 3 \<and> (n4 \<noteq> 24 \<or> n100 = 3));
               month = (n + 50) div 32;
               preceding = DAYS_BEFORE_MONTH ! nat month
                            + (if month > 2 \<and> leapyear then 1 else 0)
           in if preceding > n
              then let month' = month - 1;
                       preceding' = preceding - (DAYS_IN_MONTH ! nat month'
                                      + (if month' = 2 \<and> leapyear then 1 else 0))
                   in (year, month', n - preceding' + 1)
              else (year, month, n - preceding + 1))"

definition date_month :: "date \<Rightarrow> int" where
  "date_month d = (case ord2ymd d of (y, m, dd) \<Rightarrow> m)"

definition date_day :: "date \<Rightarrow> int" where
  "date_day d = (case ord2ymd d of (y, m, dd) \<Rightarrow> dd)"

fun str_nat :: "nat \<Rightarrow> pystr" where
  "str_nat n = (if n < 10 then [48 + n] else str_nat (n div 10) @ [48 + n mod 10])"

declare str_nat.simps [simp del]

definition two_digits :: "nat \<Rightarrow> pystr" where
  "two_digits n = [48 + n div 10, 48 + n mod 10]"

definition strftime_md :: "date \<Rightarrow> pystr" where
  \<comment> \<open>\<open>d.strftime("%m/%d")\<close>; 47 is the slash.\<close>
  "strftime_md d = two_digits (nat (date_month d)) @ [47] @ two_digits (nat (date_day d))"

section \<open>Configuration constants\<close>

definition PROJECT_START :: date where
  "PROJECT_START = ymd2ord 2025 11 25"

definition BASE_END :: date where
  "BASE_END = ymd2ord 2026 3 31"

definition MAX_SCHEDULE_DAYS :: int where
  "MAX_SCHEDULE_DAYS = 180"

definition STATUS_DONE :: pystr where
  \<comment> \<open>the status literal for a completed task (U+5B8C U+4E86)\<close>
  "STATUS_DONE = [0x5B8C, 0x4E86]"

definition STATUS_NOT_STARTED :: pystr where
  \<comment> \<open>the status literal for a task not yet started (U+672A U+7740 U+624B)\<close>
  "STATUS_NOT_STARTED = [0x672A, 0x7740, 0x624B]"

definition MARK_DONE :: pystr where
  \<comment> \<open>heavy check mark, U+2714\<close>
  "MARK_DONE = [0x2714]"

definition MARK_POINT :: pystr where
  \<comment> \<open>black circle, U+25CF\<close>
  "MARK_POINT = [0x25CF]"

definition MARK_SPAN :: pystr where
  \<comment> \<open>black square, U+25A0\<close>
  "MARK_SPAN = [0x25A0]"

section \<open>Data frames\<close>

text \<open>
  The recognised columns. The source spells most of them in Japanese; the constructors
  carry the English names: \<open>Category\<close>, \<open>Title\<close>, \<open>Detail\<close>, \<open>Owner\<close>, \<open>Status\<close>,
  \<open>StartDay\<close>, \<open>EndDay\<close>, \<open>StartDate\<close>, \<open>EndDate\<close>; \<open>SeqNo\<close> is the display column "No.".
\<close>

datatype col =
  Day | Phase | Category | Title | Detail | Owner | Status
  | StartDay | EndDay | StartDate | EndDate | SeqNo | Other pystr

text \<open>
  A cell of a frame: a missing value (\<open>None\<close>, \<open>NaN\<close>, \<open>NaT\<close>), a number, a text, a
  \<open>datetime.date\<close>, or a timestamp. Numbers are exact rationals, so that fractional day numbers
  are values of the model; a timestamp is measured in days on the scale of the date ordinals,
  midnight of a date being the ordinal itself. The rounding of floating point and of the
  timestamps' nanosecond resolution is not modelled.
\<close>

datatype cell = Blank | Num rat | Txt pystr | Dt date | Ts rat

type_synonym row = "col \<Rightarrow> cell"

record DataFrame =
  df_columns :: "col list"
  df_rows :: "row list"

datatype error = KeyError col | ValueError | TypeError

text \<open>
  The conversions of the data-frame library whose result depends on parsing text, or on
  reinterpreting a value of another type, are parameters of the model: \<open>None\<close> stands for a
  value that cannot be converted. The conversion to a timestamp sees the whole column, since
  the library infers the text format from the column.
\<close>

record coercions =
  text_to_numeric :: "pystr \<Rightarrow> rat option"
  stamp_to_numeric :: "cell \<Rightarrow> rat option"
  text_to_datetime :: "cell list \<Rightarrow> pystr \<Rightarrow> rat option"
  num_to_datetime :: "cell list \<Rightarrow> rat \<Rightarrow> rat option"
  cell_repr :: "cell \<Rightarrow> pystr"

definition df_empty :: "DataFrame \<Rightarrow> bool" where
  \<comment> \<open>\<open>df.empty\<close>: some axis has length zero\<close>
  "df_empty df = (df_rows df = [] \<or> df_columns df = [])"

definition column :: "DataFrame \<Rightarrow> col \<Rightarrow> cell list" where
  \<comment> \<open>\<open>df[c]\<close>\<close>
  "column df c = map (\<lambda>r. r c) (df_rows df)"

definition to_numeric :: "coercions \<Rightarrow> cell \<Rightarrow> rat option" where
  \<comment> \<open>\<open>pd.to_numeric(..., errors="coerce")\<close> on one cell; \<open>None\<close> is \<open>NaN\<close>\<close>
  "to_numeric P c =
     (case c of Blank \<Rightarrow> None | Num n \<Rightarrow> Some n
      | Txt s \<Rightarrow> text_to_numeric P s | Dt d \<Rightarrow> stamp_to_numeric P c
      | Ts t \<Rightarrow> stamp_to_numeric P c)"

text \<open>
  The timestamps the library can hold: 1677-09-21 00:12:43.145224193 to
  2262-04-11 23:47:16.854775807.
\<close>

definition TS_MIN :: rat where
  "TS_MIN = of_int (ymd2ord 1677 9 21) + 763145224193 / 86400000000000"

definition TS_MAX :: rat where
  "TS_MAX = of_int (ymd2ord 2262 4 11) + 85636854775807 / 86400000000000"

definition in_bounds :: "rat \<Rightarrow> rat option" where
  "in_bounds t = (if TS_MIN \<le> t \<and> t \<le> TS_MAX then Some t else None)"

definition to_datetime_coerce :: "coercions \<Rightarrow> cell list \<Rightarrow> cell \<Rightarrow> rat option" where
  \<comment> \<open>\<open>pd.to_datetime(column, errors="coerce")\<close> at one cell of the column; \<open>None\<close> is \<open>NaT\<close>\<close>
  "to_datetime_coerce P cs c =
     (case c of Blank \<Rightarrow> None
      | Dt d \<Rightarrow> in_bounds (of_int d)
      | Ts t \<Rightarrow> in_bounds t
      | Txt s \<Rightarrow> Option.bind (text_to_datetime P cs s) in_bounds
      | Num n \<Rightarrow> Option.bind (num_to_datetime P cs n) in_bounds)"

definition to_datetime_raise :: "coercions \<Rightarrow> cell list \<Rightarrow> cell \<Rightarrow> error + rat option" where
  \<comment> \<open>\<open>pd.to_datetime(column)\<close> with the default \<open>errors="raise"\<close>\<close>
  "to_datetime_raise P cs c =
     (if c = Blank then Inr None
      else (case to_datetime_coerce P cs c of None \<Rightarrow> Inl ValueError | Some t \<Rightarrow> Inr (Some t)))"

definition dt_date :: "rat option \<Rightarrow> date option" where
  \<comment> \<open>\<open>.dt.date\<close>: the calendar date of a timestamp\<close>
  "dt_date v = map_option floor v"

definition astype_str :: "coercions \<Rightarrow> cell \<Rightarrow> pystr" where
  \<comment> \<open>\<open>str(x)\<close>\<close>
  "astype_str P c = (case c of Txt s \<Rightarrow> s | _ \<Rightarrow> cell_repr P c)"

definition py_isspace :: "nat \<Rightarrow> bool" where
  "py_isspace c =
     ((0x09 \<le> c \<and> c \<le> 0x0D) \<or> (0x1C \<le> c \<and> c \<le> 0x20) \<or> c = 0x85 \<or> c = 0xA0
      \<or> c = 0x1680 \<or> (0x2000 \<le> c \<and> c \<le> 0x200A) \<or> c = 0x2028 \<or> c = 0x2029
      \<or> c = 0x202F \<or> c = 0x205F \<or> c = 0x3000)"

definition strip :: "pystr \<Rightarrow> pystr" where
  "strip s = rev (dropWhile py_isspace (rev (dropWhile py_isspace s)))"

definition row_get :: "DataFrame \<Rightarrow> row \<Rightarrow> col \<Rightarrow> cell \<Rightarrow> cell" where
  \<comment> \<open>\<open>row.get(c, default)\<close> on a row of \<open>df\<close>\<close>
  "row_get df r c dflt = (if c \<in> set (df_columns df) then r c else dflt)"

definition clip :: "'a::linorder \<Rightarrow> 'a \<Rightarrow> 'a \<Rightarrow> 'a" where
  "clip lo hi x = (if x < lo then lo else if x > hi then hi else x)"

section \<open>The normalizer: \<open>load_tasks\<close>\<close>

text \<open>
  The records read from the sheet are dictionaries from column names to cells. The frame built
  from them has the union of their keys as columns; a key missing in a record reads as \<open>Blank\<close>.
  Reading the sheet itself (and its failure) is outside the model.
\<close>

definition frame_of_records :: "(col \<times> cell) list list \<Rightarrow> DataFrame" where
  "frame_of_records data =
     \<lparr>df_columns = remdups (concat (map (map fst) data)),
      df_rows = map (\<lambda>record c. case map_of record c of None \<Rightarrow> Blank | Some v \<Rightarrow> v) data\<rparr>"

definition EMPTY_SHEET_COLUMNS :: "col list" where
  "EMPTY_SHEET_COLUMNS = [Day, Phase, Category, Title, Detail, Owner, Status, StartDay, EndDay]"

definition fix_status :: "cell \<Rightarrow> cell" where
  \<comment> \<open>\<open>replace(["", None], ...)\<close> followed by \<open>fillna(...)\<close>\<close>
  "fix_status c = (if c = Txt [] \<or> c = Blank then Txt STATUS_NOT_STARTED else c)"

definition fillna :: "'a option \<Rightarrow> 'a \<Rightarrow> 'a" where
  "fillna v dflt = (case v of None \<Rightarrow> dflt | Some x \<Rightarrow> x)"

definition reclip :: "coercions \<Rightarrow> rat \<Rightarrow> rat" where
  \<comment> \<open>the body of the loop over the three day columns\<close>
  "reclip P v = clip 1 (of_int MAX_SCHEDULE_DAYS) (fillna (to_numeric P (Num v)) 1)"

definition opt_stamp_cell :: "rat option \<Rightarrow> cell" where
  "opt_stamp_cell v = (case v of None \<Rightarrow> Blank | Some t \<Rightarrow> Ts t)"

definition load_row :: "coercions \<Rightarrow> DataFrame \<Rightarrow> row \<Rightarrow> row" where
  "load_row P df r =
     (let cols = df_columns df;
          day0 = (if Day \<in> set cols then to_numeric P (r Day) else None);
          start0 = (if StartDay \<notin> set cols then day0 else to_numeric P (r StartDay));
          end0 = (if EndDay \<notin> set cols then day0 else to_numeric P (r EndDay));
          day1 = fillna day0 1;
          start1 = fillna start0 day1;
          end1 = fillna end0 start1;
          day = reclip P day1;
          start_day = reclip P start1;
          end_day = reclip P end1;
          start_date = (if StartDate \<in> set cols
                        then opt_stamp_cell (to_datetime_coerce P (column df StartDate) (r StartDate))
                        else Ts (of_int PROJECT_START + (start_day - 1)));
          end_date = (if EndDate \<in> set cols
                      then opt_stamp_cell (to_datetime_coerce P (column df EndDate) (r EndDate))
                      else start_date)
      in r(Status := fix_status (r Status),
           Day := Num day, StartDay := Num start_day, EndDay := Num end_day,
           StartDate := start_date, EndDate := end_date,
           Phase := Txt (astype_str P (r Phase)),
           Title := Txt (astype_str P (r Title))))"

definition add_col :: "col \<Rightarrow> col list \<Rightarrow> col list" where
  "add_col c cols = (if c \<in> set cols then cols else cols @ [c])"

definition sheet_frame :: "(col \<times> cell) list list \<Rightarrow> DataFrame" where
  \<comment> \<open>the frame of the sheet's records, or the empty frame with the default columns\<close>
  "sheet_frame data =
     (if data = [] then \<lparr>df_columns = EMPTY_SHEET_COLUMNS, df_rows = []\<rparr>
      else frame_of_records data)"

definition load_tasks :: "coercions \<Rightarrow> (col \<times> cell) list list \<Rightarrow> error + DataFrame" where
  "load_tasks P data =
     (let df = sheet_frame data
      in if Status \<notin> set (df_columns df) then Inl (KeyError Status)
         else if Phase \<notin> set (df_columns df) then Inl (KeyError Phase)
         else if Title \<notin> set (df_columns df) then Inl (KeyError Title)
         else Inr \<lparr>df_columns = fold add_col [Day, StartDay, EndDay, StartDate, EndDate]
                                    (df_columns df),
                   df_rows = map (load_row P df) (df_rows df)\<rparr>)"

section \<open>Schedule tables\<close>

text \<open>
  A row of a schedule table: the fixed leading fields, then the dictionary from column label
  to marker, in insertion order. Assigning to a label that is already a key overwrites its
  value and keeps its position, as a Python \<open>dict\<close> does.
\<close>

record 'a sched_row =
  o_no :: int
  o_phase :: 'a
  o_category :: cell
  o_title :: 'a
  o_owner :: cell
  o_status :: pystr
  o_start :: date
  o_end :: date
  o_cells :: "(pystr \<times> pystr) list"

record 'a table =
  fixed_columns :: "col list"
  other_columns :: "pystr list"
  t_rows :: "'a sched_row list"

definition empty_table :: "'a table" where
  "empty_table = \<lparr>fixed_columns = [], other_columns = [], t_rows = []\<rparr>"

definition FIXED :: "col list" where
  "FIXED = [SeqNo, Phase, Category, Title, Owner, Status, StartDate, EndDate]"

definition make_table :: "'a sched_row list \<Rightarrow> 'a table" where
  \<comment> \<open>every row carries the same labels, so the frame's remaining columns are the first row's keys\<close>
  "make_table rs =
     \<lparr>fixed_columns = FIXED,
      other_columns = (case rs of [] \<Rightarrow> [] | r # _ \<Rightarrow> map fst (o_cells r)),
      t_rows = rs\<rparr>"

definition fill_cells :: "pystr list \<Rightarrow> (nat \<Rightarrow> pystr) \<Rightarrow> (pystr \<times> pystr) list" where
  \<comment> \<open>\<open>for idx, label in enumerate(labels): row_data[label] = mark(idx)\<close>\<close>
  "fill_cells labels mark =
     fold (\<lambda>(idx, label) row_data. AList.update label (mark idx) row_data)
          (enumerate 0 labels) []"

subsection \<open>The daily builder: \<open>build_schedule_table\<close>\<close>

record drow =
  d_src :: row
  d_phase :: pystr
  d_title :: pystr
  d_start :: date
  d_end :: date
  d_start_day :: int
  d_end_day :: int

definition parsed_date :: "coercions \<Rightarrow> DataFrame \<Rightarrow> col \<Rightarrow> row \<Rightarrow> date option" where
  \<comment> \<open>\<open>pd.to_datetime(df[c], errors="coerce").dt.date\<close> at one row\<close>
  "parsed_date P df c r = dt_date (to_datetime_coerce P (column df c) (r c))"

definition daily_dates :: "coercions \<Rightarrow> DataFrame \<Rightarrow> row \<Rightarrow> date \<times> date" where
  \<comment> \<open>the two date columns after \<open>.dt.date\<close>, the two \<open>fillna\<close> and the masked assignment\<close>
  "daily_dates P df r =
     (let s = fillna (parsed_date P df StartDate r) PROJECT_START;
          e = fillna (parsed_date P df EndDate r) s
      in (s, if e < s then s else e))"

text \<open>
  When no cell of the end-date column converts, the column keeps the timestamp type through
  \<open>.dt.date\<close> and through \<open>fillna\<close> with the start dates, and subtracting the project start (a
  \<open>datetime.date\<close>) from it is a type error. With at least one valid end date the column holds
  date objects and the subtraction is defined.
\<close>

definition no_end_date :: "coercions \<Rightarrow> DataFrame \<Rightarrow> bool" where
  "no_end_date P df = list_all (\<lambda>r. parsed_date P df EndDate r = None) (df_rows df)"

definition day_offset :: "date \<Rightarrow> int" where
  "day_offset d = clip 1 MAX_SCHEDULE_DAYS ((d - PROJECT_START) + 1)"

definition normalise_daily :: "coercions \<Rightarrow> DataFrame \<Rightarrow> row \<Rightarrow> drow" where
  "normalise_daily P df r =
     (case daily_dates P df r of (s, e) \<Rightarrow>
        \<lparr>d_src = r,
         d_phase = astype_str P (r Phase),
         d_title = astype_str P (r Title),
         d_start = s, d_end = e,
         d_start_day = day_offset s,
         d_end_day = day_offset e\<rparr>)"

definition day_mark :: "pystr \<Rightarrow> int \<Rightarrow> int \<Rightarrow> nat \<Rightarrow> pystr" where
  "day_mark status start_day end_day idx =
     (let start_idx = start_day - 1; end_idx = end_day - 1
      in if start_idx \<le> int idx \<and> int idx \<le> end_idx
         then (if status = STATUS_DONE then MARK_DONE
               else if start_day = end_day then MARK_POINT else MARK_SPAN)
         else [])"

definition daily_row :: "coercions \<Rightarrow> DataFrame \<Rightarrow> pystr list \<Rightarrow> nat \<times> drow \<Rightarrow> pystr sched_row" where
  "daily_row P df date_labels = (\<lambda>(no, r).
     let status = strip (astype_str P (row_get df (d_src r) Status (Txt [])))
     in \<lparr>o_no = int no,
         o_phase = d_phase r,
         o_category = row_get df (d_src r) Category (Txt []),
         o_title = d_title r,
         o_owner = row_get df (d_src r) Owner (Txt []),
         o_status = status,
         o_start = d_start r,
         o_end = d_end r,
         o_cells = fill_cells date_labels (day_mark status (d_start_day r) (d_end_day r))\<rparr>)"

definition daily_key :: "drow \<Rightarrow> date \<times> pystr \<times> pystr" where
  "daily_key r = (d_start r, d_phase r, d_title r)"

definition window_days :: "drow list \<Rightarrow> int" where
  "window_days nrows =
     (let max_end_day = min (Max (set (map d_end_day nrows))) MAX_SCHEDULE_DAYS;
          dynamic_end = max BASE_END (PROJECT_START + (max_end_day - 1))
      in (dynamic_end - PROJECT_START) + 1)"

definition date_labels_of :: "int \<Rightarrow> pystr list" where
  "date_labels_of num_days =
     map strftime_md (map (\<lambda>i. PROJECT_START + int i) [0..<nat num_days])"

definition build_schedule_table :: "coercions \<Rightarrow> DataFrame \<Rightarrow> error + pystr table" where
  "build_schedule_table P df =
     (if df_empty df then Inr empty_table
      else if Phase \<notin> set (df_columns df) then Inl (KeyError Phase)
      else if Title \<notin> set (df_columns df) then Inl (KeyError Title)
      else if StartDate \<notin> set (df_columns df) then Inl (KeyError StartDate)
      else if EndDate \<notin> set (df_columns df) then Inl (KeyError EndDate)
      else if no_end_date P df then Inl TypeError
      else
        let nrows = map (normalise_daily P df) (df_rows df);
            date_labels = date_labels_of (window_days nrows);
            sorted_rows = sort_key daily_key nrows
        in Inr (make_table (map (daily_row P df date_labels) (enumerate 1 sorted_rows))))"

subsection \<open>The weekly builder: \<open>build_schedule_table_weekly\<close>\<close>

record wrow =
  w_src :: row
  w_start :: date
  w_end :: date
  w_start_week :: int
  w_end_week :: int

definition week_index :: "date \<Rightarrow> int" where
  "week_index d = (d - PROJECT_START) div 7 + 1"

definition week_label :: "nat \<Rightarrow> pystr" where
  \<comment> \<open>month, U+6708, week of the month, U+9031 U+76EE\<close>
  "week_label w =
     (let week_start = PROJECT_START + int w * 7;
          month = date_month week_start;
          week_of_month = (date_day week_start - 1) div 7 + 1
      in str_nat (nat month) @ [0x6708] @ str_nat (nat week_of_month) @ [0x9031, 0x76EE])"

fun collect :: "(error + 'a) list \<Rightarrow> error + 'a list" where
  "collect [] = Inr []"
| "collect (Inl e # xs) = Inl e"
| "collect (Inr v # xs) = (case collect xs of Inl e \<Rightarrow> Inl e | Inr vs \<Rightarrow> Inr (v # vs))"

definition normalise_weekly :: "row \<times> date option \<times> date option \<Rightarrow> wrow" where
  "normalise_weekly = (\<lambda>(r, s0, e0).
     let s = fillna s0 PROJECT_START;
         e = fillna e0 s
     in \<lparr>w_src = r, w_start = s, w_end = e,
         w_start_week = week_index s, w_end_week = week_index e\<rparr>)"

text \<open>
  Sorting by a column compares its cells: values that are not text come first, in the order
  of their values, then the texts, and missing values go last. Numbers, dates and timestamps
  do not compare with one another; a column that mixes them cannot be ordered, which the
  library reports as a type error.
\<close>

definition cell_kind :: "cell \<Rightarrow> nat" where
  "cell_kind c = (case c of Blank \<Rightarrow> 0 | Num n \<Rightarrow> 1 | Txt s \<Rightarrow> 2 | Dt d \<Rightarrow> 3 | Ts t \<Rightarrow> 4)"

definition sortable :: "cell list \<Rightarrow> bool" where
  "sortable cs =
     (length (remdups (filter (\<lambda>k. k \<noteq> 0 \<and> k \<noteq> 2) (map cell_kind cs))) \<le> 1)"

definition cell_key :: "cell \<Rightarrow> nat \<times> rat \<times> pystr" where
  "cell_key c =
     (case c of Blank \<Rightarrow> (2, 0, []) | Num n \<Rightarrow> (0, n, []) | Txt s \<Rightarrow> (1, 0, s)
      | Dt d \<Rightarrow> (0, of_int d, []) | Ts t \<Rightarrow> (0, t, []))"

definition weekly_key :: "wrow \<Rightarrow> int \<times> nat \<times> rat \<times> pystr" where
  "weekly_key r = (w_start_week r, cell_key (w_src r Phase))"

definition week_mark :: "pystr \<Rightarrow> int \<Rightarrow> int \<Rightarrow> nat \<Rightarrow> pystr" where
  "week_mark status start_w end_w w =
     (let mark = (if status = STATUS_DONE then MARK_DONE else MARK_SPAN)
      in if start_w - 1 \<le> int w \<and> int w \<le> end_w - 1 then mark else [])"

definition weekly_row :: "coercions \<Rightarrow> DataFrame \<Rightarrow> pystr list \<Rightarrow> nat \<times> wrow \<Rightarrow> cell sched_row" where
  "weekly_row P df week_labels = (\<lambda>(no, r).
     let status = strip (astype_str P (row_get df (w_src r) Status (Txt [])))
     in \<lparr>o_no = int no,
         o_phase = w_src r Phase,
         o_category = w_src r Category,
         o_title = w_src r Title,
         o_owner = w_src r Owner,
         o_status = status,
         o_start = w_start r,
         o_end = w_end r,
         o_cells = fill_cells week_labels (week_mark status (w_start_week r) (w_end_week r))\<rparr>)"

definition week_labels_of :: "int \<Rightarrow> pystr list" where
  "week_labels_of max_week = map week_label [0..<nat max_week]"

definition parse_column :: "coercions \<Rightarrow> DataFrame \<Rightarrow> col \<Rightarrow> error + date option list" where
  \<comment> \<open>\<open>pd.to_datetime(df[c]).dt.date\<close>\<close>
  "parse_column P df c =
     (if c \<notin> set (df_columns df) then Inl (KeyError c)
      else collect (map (\<lambda>r. case to_datetime_raise P (column df c) (r c) of
                                Inl e \<Rightarrow> Inl e | Inr v \<Rightarrow> Inr (dt_date v))
                        (df_rows df)))"

text \<open>
  As in the daily builder, an end-date column without any valid value keeps the timestamp
  type, and computing its week numbers by subtracting the project start is a type error.
\<close>

definition weekly_table ::
  "coercions \<Rightarrow> DataFrame \<Rightarrow> date option list \<Rightarrow> date option list \<Rightarrow> error + cell table" where
  "weekly_table P df starts ends =
     (if Phase \<notin> set (df_columns df) then Inl (KeyError Phase)
      else if \<not> sortable (column df Phase) then Inl TypeError
      else
        let nrows = map normalise_weekly (zip (df_rows df) (zip starts ends));
            sorted_rows = sort_key weekly_key nrows;
            max_week = Max (set (map w_end_week sorted_rows));
            week_labels = week_labels_of max_week
        in if Category \<notin> set (df_columns df) then Inl (KeyError Category)
           else if Title \<notin> set (df_columns df) then Inl (KeyError Title)
           else if Owner \<notin> set (df_columns df) then Inl (KeyError Owner)
           else Inr (make_table (map (weekly_row P df week_labels) (enumerate 1 sorted_rows))))"

definition build_schedule_table_weekly :: "coercions \<Rightarrow> DataFrame \<Rightarrow> error + cell table" where
  "build_schedule_table_weekly P df =
     (if df_empty df then Inr empty_table
      else (case parse_column P df StartDate of
              Inl e \<Rightarrow> Inl e
            | Inr starts \<Rightarrow>
               (case parse_column P df EndDate of
                  Inl e \<Rightarrow> Inl e
                | Inr ends \<Rightarrow>
                   if list_all (\<lambda>e. e = None) ends then Inl TypeError
                   else weekly_table P df starts ends)))"

subsection \<open>Ordering and numbering of the list view\<close>

definition view_key :: "row \<Rightarrow> (nat \<times> rat) \<times> pystr \<times> pystr" where
  \<comment> \<open>missing start dates sort last\<close>
  "view_key r =
     ((case r StartDate of Ts t \<Rightarrow> (0, t) | _ \<Rightarrow> (1, 0)),
      (case r Phase of Txt s \<Rightarrow> s | _ \<Rightarrow> []),
      (case r Title of Txt s \<Rightarrow> s | _ \<Rightarrow> []))"

definition view_row :: "coercions \<Rightarrow> DataFrame \<Rightarrow> row \<Rightarrow> row" where
  "view_row P df r =
     r(StartDate := opt_stamp_cell (to_datetime_coerce P (column df StartDate) (r StartDate)),
       Phase := Txt (astype_str P (r Phase)),
       Title := Txt (astype_str P (r Title)))"

definition list_view :: "coercions \<Rightarrow> DataFrame \<Rightarrow> error + (int \<times> row) list" where
  "list_view P df =
     (if StartDate \<notin> set (df_columns df) then Inl (KeyError StartDate)
      else if Phase \<notin> set (df_columns df) then Inl (KeyError Phase)
      else if Title \<notin> set (df_columns df) then Inl (KeyError Title)
      else
        let view_df = sort_key view_key (map (view_row P df) (df_rows df))
        in Inr (map (\<lambda>(i, r). (int i, r)) (enumerate 1 view_df)))"

section \<open>Reference descriptions and sample inputs\<close>



text \<open>Conversions under which no text parses and no value is reinterpreted.\<close>

definition no_parsing :: coercions where
  "no_parsing =
     \<lparr>text_to_numeric = (\<lambda>s. None), stamp_to_numeric = (\<lambda>c. None),
      text_to_datetime = (\<lambda>cs s. None), num_to_datetime = (\<lambda>cs n. None),
      cell_repr = (\<lambda>c. [])\<rparr>"

definition task_row :: "pystr \<Rightarrow> pystr \<Rightarrow> pystr \<Rightarrow> cell \<Rightarrow> cell \<Rightarrow> row" where
  "task_row phase title status start end =
     (\<lambda>c. Blank)(Phase := Txt phase, Title := Txt title, Status := Txt status,
                  StartDate := start, EndDate := end)"

definition TASK_COLUMNS :: "col list" where
  "TASK_COLUMNS =
     [Day, Phase, Category, Title, Detail, Owner, Status, StartDay, EndDay, StartDate, EndDate]"

text \<open>Two tasks stored out of display order; the first has its end before its start.\<close>

definition demo_two :: DataFrame where
  "demo_two =
     \<lparr>df_columns = TASK_COLUMNS,
      df_rows =
        [task_row [80, 50] [66] STATUS_NOT_STARTED
           (Dt (ymd2ord 2025 12 5)) (Dt (ymd2ord 2025 12 1)),
         task_row [80, 49] [65] STATUS_DONE
           (Dt (ymd2ord 2025 11 25)) (Dt (ymd2ord 2025 11 27))]\<rparr>"

text \<open>
  Month and day of the calendar days the daily window can reach: day \<open>i\<close> after the project
  start, for \<open>i\<close> below the maximum of 180 days (25 November to 23 May).
\<close>

definition window_md :: "nat \<Rightarrow> int \<times> int" where
  "window_md i =
     (if i < 6 then (11, 25 + int i)
      else if i < 37 then (12, int i - 5)
      else if i < 68 then (1, int i - 36)
      else if i < 96 then (2, int i - 67)
      else if i < 127 then (3, int i - 95)
      else if i < 157 then (4, int i - 126)
      else (5, int i - 156))"


text \<open>One task that ends on 30 April 2026, a month after the default end of the window.\<close>

definition demo_stretch :: DataFrame where
  "demo_stretch =
     \<lparr>df_columns = TASK_COLUMNS,
      df_rows =
        [task_row [80, 49] [65] STATUS_NOT_STARTED
           (Dt (ymd2ord 2025 11 25)) (Dt (ymd2ord 2026 4 30))]\<rparr>"


text \<open>
  Sheets as the store returns them: a record asking for start day 500; a record without a
  status field; a record that carries dates but no day numbers; and a frame without date columns.
\<close>

definition sheet_500 :: "(col \<times> cell) list list" where
  "sheet_500 = [[(Phase, Txt [80, 49]), (Title, Txt [65]), (Status, Txt []), (StartDay, Num 500)]]"



definition sheet_dated :: "(col \<times> cell) list list" where
  "sheet_dated =
     [[(Phase, Txt [80, 49]), (Title, Txt [65]), (Status, Txt STATUS_DONE),
       (StartDate, Dt (ymd2ord 2025 12 5)), (EndDate, Dt (ymd2ord 2025 12 5))]]"




text \<open>
  Tasks without an end date: two tasks; a single task on the first project day; a single task
  inside the default window.
\<close>

definition demo_open_two :: DataFrame where
  "demo_open_two =
     \<lparr>df_columns = TASK_COLUMNS,
      df_rows =
        [task_row [80, 50] [66] STATUS_NOT_STARTED (Dt (ymd2ord 2025 12 5)) Blank,
         task_row [80, 49] [65] STATUS_DONE (Dt (ymd2ord 2025 11 25)) Blank]\<rparr>"


definition demo_open_floor :: DataFrame where
  "demo_open_floor =
     \<lparr>df_columns = TASK_COLUMNS,
      df_rows = [task_row [80, 49] [65] STATUS_NOT_STARTED (Dt (ymd2ord 2025 12 10)) Blank]\<rparr>"


text \<open>
  Sheets with day numbers only: start day 1 and end day 5; and a fractional start day.
\<close>

definition sheet_days_only :: "(col \<times> cell) list list" where
  "sheet_days_only =
     [[(Phase, Txt [80, 49]), (Title, Txt [65]), (Status, Txt STATUS_DONE),
       (StartDay, Num 1), (EndDay, Num 5)]]"

definition sheet_fraction :: "(col \<times> cell) list list" where
  "sheet_fraction =
     [[(Phase, Txt [80, 49]), (Title, Txt [65]), (Status, Txt STATUS_DONE),
       (StartDay, Num (5 / 2))]]"

text \<open>
  Month and week of the month of the first day of each project week, for the first 53 weeks
  (25 November 2025 to 24 November 2026), as naturals.
\<close>

definition WEEK_TABLE :: "(nat \<times> nat) list" where
  "WEEK_TABLE =
     [(11, 4), (12, 1), (12, 2), (12, 3), (12, 4), (12, 5),
      (1, 1), (1, 2), (1, 3), (1, 4),
      (2, 1), (2, 2), (2, 3), (2, 4),
      (3, 1), (3, 2), (3, 3), (3, 4), (3, 5),
      (4, 1), (4, 2), (4, 3), (4, 4),
      (5, 1), (5, 2), (5, 3), (5, 4),
      (6, 1), (6, 2), (6, 3), (6, 4), (6, 5),
      (7, 1), (7, 2), (7, 3), (7, 4),
      (8, 1), (8, 2), (8, 3), (8, 4),
      (9, 1), (9, 2), (9, 3), (9, 4), (9, 5),
      (10, 1), (10, 2), (10, 3), (10, 4),
      (11, 1), (11, 2), (11, 3), (11, 4)]"

section \<open>The calendar of the daily window\<close>

lemma PROJECT_START_eq: "PROJECT_START = 739580"
  by (simp add: PROJECT_START_def ymd2ord_def days_before_year_def days_before_month_def
      DAYS_BEFORE_MONTH_def is_leap_def)

lemma BASE_END_eq: "BASE_END = 739706"
  by (simp add: BASE_END_def ymd2ord_def days_before_year_def days_before_month_def
      DAYS_BEFORE_MONTH_def is_leap_def)

lemma window_calendar_all:
  "list_all (\<lambda>i. (date_month (PROJECT_START + int i), date_day (PROJECT_START + int i)) = window_md i)
     [0..<180]"
  by code_simp

lemma window_calendar:
  assumes "i < 180"
  shows "date_month (PROJECT_START + int i) = fst (window_md i)"
    and "date_day (PROJECT_START + int i) = snd (window_md i)"
proof -
  from assms have "i \<in> set [0..<180]" by simp
  with window_calendar_all
  have "(date_month (PROJECT_START + int i), date_day (PROJECT_START + int i)) = window_md i"
    unfolding list_all_iff by blast
  then show "date_month (PROJECT_START + int i) = fst (window_md i)"
    and "date_day (PROJECT_START + int i) = snd (window_md i)"
    by (metis fst_conv, metis snd_conv)
qed

lemma two_digits_inj: "two_digits a = two_digits b \<Longrightarrow> a = b"
proof -
  assume "two_digits a = two_digits b"
  then have "a div 10 = b div 10" and "a mod 10 = b mod 10"
    by (simp_all add: two_digits_def)
  then show "a = b"
    by (metis div_mult_mod_eq)
qed

lemma window_md_inj:
  assumes "i < 180" "j < 180"
    and "nat (fst (window_md i)) = nat (fst (window_md j))"
    and "nat (snd (window_md i)) = nat (snd (window_md j))"
  shows "i = j"
  using assms by (auto simp: window_md_def split: if_splits)

lemma strftime_md_window_inj:
  assumes "i < 180" "j < 180"
    and "strftime_md (PROJECT_START + int i) = strftime_md (PROJECT_START + int j)"
  shows "i = j"
proof -
  from assms(3)
  have "two_digits (nat (date_month (PROJECT_START + int i)))
          = two_digits (nat (date_month (PROJECT_START + int j)))"
    and "two_digits (nat (date_day (PROJECT_START + int i)))
          = two_digits (nat (date_day (PROJECT_START + int j)))"
    by (simp_all add: strftime_md_def two_digits_def)
  then have "nat (fst (window_md i)) = nat (fst (window_md j))"
    and "nat (snd (window_md i)) = nat (snd (window_md j))"
    using assms(1,2) by (auto dest!: two_digits_inj simp: window_calendar)
  with assms(1,2) show ?thesis
    by (rule window_md_inj)
qed

lemma length_date_labels_of: "length (date_labels_of n) = nat n"
  by (simp add: date_labels_of_def)

lemma nth_date_labels_of:
  "i < nat n \<Longrightarrow> date_labels_of n ! i = strftime_md (PROJECT_START + int i)"
  by (simp add: date_labels_of_def)

lemma distinct_date_labels_of:
  assumes "n \<le> 180"
  shows "distinct (date_labels_of n)"
proof -
  have "inj_on (\<lambda>i. strftime_md (PROJECT_START + int i)) (set [0..<nat n])"
  proof (rule inj_onI)
    fix i j
    assume "i \<in> set [0..<nat n]" "j \<in> set [0..<nat n]"
      and eq: "strftime_md (PROJECT_START + int i) = strftime_md (PROJECT_START + int j)"
    with assms have "i < 180" "j < 180" by auto
    then show "i = j" using eq by (rule strftime_md_window_inj)
  qed
  then have "distinct (map (\<lambda>i. strftime_md (PROJECT_START + int i)) [0..<nat n])"
    by (simp add: distinct_map)
  then show ?thesis
    by (simp add: date_labels_of_def comp_def)
qed

section \<open>Row dictionaries\<close>

lemma update_fresh: "k \<notin> fst ` set al \<Longrightarrow> AList.update k v al = al @ [(k, v)]"
  by (induction al) auto

lemma fold_update_fresh:
  assumes "distinct (map fst acc @ labels)"
  shows "fold (\<lambda>(idx, label) row_data. AList.update label (mark idx) row_data)
              (enumerate n labels) acc
           = acc @ zip labels (map mark [n..<n + length labels])"
  using assms
proof (induction labels arbitrary: acc n)
  case Nil
  then show ?case by simp
next
  case (Cons l ls)
  from Cons.prems have fresh: "l \<notin> fst ` set acc"
    by auto
  from Cons.prems have "distinct (map fst (acc @ [(l, mark n)]) @ ls)"
    by auto
  note step = Cons.IH [OF this, of "Suc n"]
  have upt: "[n..<n + length (l # ls)] = n # [Suc n..<Suc n + length ls]"
    by (simp add: upt_conv_Cons del: upt_Suc)
  show ?case
    unfolding upt using step fresh by (simp add: update_fresh del: upt_Suc)
qed

lemma fill_cells_distinct:
  "distinct labels \<Longrightarrow> fill_cells labels mark = zip labels (map mark [0..<length labels])"
  using fold_update_fresh [of "[]" labels mark 0] by (simp add: fill_cells_def)

section \<open>Conversions\<close>

lemma TS_MIN_less: "TS_MIN < 612412"
  by (simp add: TS_MIN_def ymd2ord_def days_before_year_def days_before_month_def
      DAYS_BEFORE_MONTH_def is_leap_def)

lemma TS_MAX_ge: "825914 \<le> TS_MAX"
  by (simp add: TS_MAX_def ymd2ord_def days_before_year_def days_before_month_def
      DAYS_BEFORE_MONTH_def is_leap_def)

lemma in_bounds_date:
  assumes "612412 \<le> d" "d \<le> 825914"
  shows "in_bounds (of_int d) = Some (of_int d)"
proof -
  from assms(1) have "(612412::rat) \<le> of_int d"
    by (metis of_int_le_iff of_int_numeral)
  with TS_MIN_less have lo: "TS_MIN \<le> of_int d"
    by simp
  from assms(2) have "(of_int d :: rat) \<le> 825914"
    by (metis of_int_le_iff of_int_numeral)
  with TS_MAX_ge have "of_int d \<le> TS_MAX"
    by simp
  with lo show ?thesis
    by (simp add: in_bounds_def)
qed

lemma in_bounds_Some: "in_bounds t = Some u \<Longrightarrow> u = t"
  by (simp add: in_bounds_def split: if_splits)

lemma in_bounds_stamp:
  assumes "612412 \<le> t" "t \<le> 825914"
  shows "in_bounds t = Some t"
  using assms TS_MIN_less TS_MAX_ge by (simp add: in_bounds_def)

section \<open>Properties of the daily builder\<close>

lemma day_offset_range: "1 \<le> day_offset d \<and> day_offset d \<le> MAX_SCHEDULE_DAYS"
  by (simp add: day_offset_def clip_def MAX_SCHEDULE_DAYS_def)

lemma day_offset_mono: "d \<le> d' \<Longrightarrow> day_offset d \<le> day_offset d'"
  by (simp add: day_offset_def clip_def MAX_SCHEDULE_DAYS_def)

lemma daily_dates_ordered: "fst (daily_dates P df r) \<le> snd (daily_dates P df r)"
  by (simp add: daily_dates_def Let_def)

lemma normalise_daily_simps:
  "d_src (normalise_daily P df r) = r"
  "d_phase (normalise_daily P df r) = astype_str P (r Phase)"
  "d_title (normalise_daily P df r) = astype_str P (r Title)"
  "d_start (normalise_daily P df r) = fst (daily_dates P df r)"
  "d_end (normalise_daily P df r) = snd (daily_dates P df r)"
  "d_start_day (normalise_daily P df r) = day_offset (fst (daily_dates P df r))"
  "d_end_day (normalise_daily P df r) = day_offset (snd (daily_dates P df r))"
  by (simp_all add: normalise_daily_def split: prod.splits)

lemma window_days_eq:
  assumes "rs \<noteq> []"
  shows "window_days (map (normalise_daily P df) rs)
           = max 127 (Max (set (map (\<lambda>r. day_offset (snd (daily_dates P df r))) rs)))"
proof -
  let ?M = "Max (set (map (\<lambda>r. day_offset (snd (daily_dates P df r))) rs))"
  have eq: "map d_end_day (map (normalise_daily P df) rs)
              = map (\<lambda>r. day_offset (snd (daily_dates P df r))) rs"
    by (simp add: normalise_daily_simps)
  from assms have "?M \<in> set (map (\<lambda>r. day_offset (snd (daily_dates P df r))) rs)"
    by (intro Max_in) auto
  then have "?M \<le> MAX_SCHEDULE_DAYS"
    using day_offset_range by auto
  then show ?thesis
    unfolding window_days_def eq Let_def
    by (simp add: PROJECT_START_eq BASE_END_eq MAX_SCHEDULE_DAYS_def max_def min_def)
qed

lemma window_days_bounds:
  assumes "rs \<noteq> []"
  shows "127 \<le> window_days (map (normalise_daily P df) rs)"
    and "window_days (map (normalise_daily P df) rs) \<le> 180"
    and "r \<in> set rs \<Longrightarrow> day_offset (snd (daily_dates P df r)) \<le> window_days (map (normalise_daily P df) rs)"
proof -
  let ?xs = "map (\<lambda>r. day_offset (snd (daily_dates P df r))) rs"
  from assms have "Max (set ?xs) \<in> set ?xs"
    by (intro Max_in) auto
  then have le: "Max (set ?xs) \<le> 180"
    using day_offset_range by (auto simp: MAX_SCHEDULE_DAYS_def)
  show "127 \<le> window_days (map (normalise_daily P df) rs)"
    by (simp add: window_days_eq [OF assms])
  show "window_days (map (normalise_daily P df) rs) \<le> 180"
    using le by (simp add: window_days_eq [OF assms])
  show "day_offset (snd (daily_dates P df r)) \<le> window_days (map (normalise_daily P df) rs)"
    if "r \<in> set rs"
  proof -
    from that have "day_offset (snd (daily_dates P df r)) \<le> Max (set ?xs)"
      by (intro Max_ge) auto
    then show ?thesis
      by (simp add: window_days_eq [OF assms])
  qed
qed

lemma build_schedule_table_Inr:
  assumes "df_rows df \<noteq> []" and "{Phase, Title, StartDate, EndDate} \<subseteq> set (df_columns df)"
    and "\<not> no_end_date P df"
  shows "build_schedule_table P df =
           Inr (make_table (map (daily_row P df
                  (date_labels_of (window_days (map (normalise_daily P df) (df_rows df)))))
                  (enumerate 1 (sort_key daily_key (map (normalise_daily P df) (df_rows df))))))"
proof -
  from assms(2) have "df_columns df \<noteq> []" by auto
  with assms show ?thesis
    by (simp add: build_schedule_table_def df_empty_def Let_def)
qed

lemma t_rows_make_table: "t_rows (make_table rs) = rs"
  by (simp add: make_table_def)







lemma day_mark_nonempty:
  "day_mark st s e i \<noteq> [] \<longleftrightarrow> s - 1 \<le> int i \<and> int i \<le> e - 1"
  by (simp add: day_mark_def Let_def MARK_DONE_def MARK_POINT_def MARK_SPAN_def)

lemma length_filter_zip_map:
  "length ls = length js \<Longrightarrow>
     length (filter (\<lambda>(l, m). Q m) (zip ls (map f js))) = length (filter (\<lambda>j. Q (f j)) js)"
  by (induction ls js rule: list_induct2) simp_all

lemma length_filter_range:
  assumes "1 \<le> s" "s \<le> e" "e \<le> int N"
  shows "int (length (filter (\<lambda>i. s - 1 \<le> int i \<and> int i \<le> e - 1) [0..<N])) = e - s + 1"
proof -
  have "{i. i < length [0..<N] \<and> (s - 1 \<le> int ([0..<N] ! i) \<and> int ([0..<N] ! i) \<le> e - 1)}
          = {nat (s - 1)..nat (e - 1)}"
    using assms by auto
  then have "length (filter (\<lambda>i. s - 1 \<le> int i \<and> int i \<le> e - 1) [0..<N])
          = card {nat (s - 1)..nat (e - 1)}"
    by (simp only: length_filter_conv_card)
  with assms show ?thesis
    by simp
qed

lemma marked_count:
  assumes "1 \<le> s" "s \<le> e" "e \<le> int (length ls)"
  shows "int (length (filter (\<lambda>(l, m). m \<noteq> [])
              (zip ls (map (day_mark st s e) [0..<length ls])))) = e - s + 1"
proof -
  have "length (filter (\<lambda>(l, m). m \<noteq> []) (zip ls (map (day_mark st s e) [0..<length ls])))
          = length (filter (\<lambda>i. day_mark st s e i \<noteq> []) [0..<length ls])"
    by (rule length_filter_zip_map) simp
  then show ?thesis
    using length_filter_range [OF assms] by (simp add: day_mark_nonempty)
qed

lemma daily_row_cells:
  assumes "distinct ls"
  shows "o_cells (daily_row P df ls (n, x))
           = zip ls (map (day_mark (o_status (daily_row P df ls (n, x)))
                            (d_start_day x) (d_end_day x)) [0..<length ls])"
  using assms by (simp add: daily_row_def Let_def fill_cells_distinct)

lemma other_columns_daily:
  assumes "distinct ls" "xs \<noteq> []"
  shows "other_columns (make_table (map (daily_row P df ls) (enumerate k xs))) = ls"
proof -
  from assms(2) obtain x xs' where xs: "xs = x # xs'"
    by (cases xs) auto
  show ?thesis
    by (simp add: xs make_table_def daily_row_cells [OF assms(1)])
qed

lemma in_set_daily_rows:
  assumes "\<rho> \<in> set (map (daily_row P df ls) (enumerate k (sort_key daily_key (map (normalise_daily P df) rs))))"
  obtains n r where "r \<in> set rs" "\<rho> = daily_row P df ls (n, normalise_daily P df r)"
proof -
  from assms obtain n x where "(n, x) \<in> set (enumerate k (sort_key daily_key (map (normalise_daily P df) rs)))"
    and \<rho>: "\<rho> = daily_row P df ls (n, x)"
    by auto
  then have "x \<in> set (sort_key daily_key (map (normalise_daily P df) rs))"
    by (auto simp: enumerate_eq_zip dest: set_zip_rightD)
  then obtain r where "r \<in> set rs" "x = normalise_daily P df r"
    by auto
  with \<rho> that show thesis by blast
qed

text \<open>
  On such a frame the table has one row per record and at least 127 day columns, the labels
  of the consecutive days from the project start, all distinct; in every row the cell of
  column \<open>i\<close> is marked exactly when \<open>i + 1\<close> lies between the row's clipped start and end
  offsets, with the done, point or span marker, and the number of marked cells is
  end offset - start offset + 1.
\<close>

lemma daily_cells_general:
  assumes "df_rows df \<noteq> []" and "{Phase, Title, StartDate, EndDate} \<subseteq> set (df_columns df)"
    and "\<not> no_end_date P df"
  shows "\<exists>t. build_schedule_table P df = Inr t
           \<and> length (t_rows t) = length (df_rows df)
           \<and> 127 \<le> length (other_columns t)
           \<and> distinct (other_columns t)
           \<and> (\<forall>\<rho> \<in> set (t_rows t).
                 map fst (o_cells \<rho>) = other_columns t
               \<and> (\<forall>i < length (other_columns t).
                     other_columns t ! i = strftime_md (PROJECT_START + int i)
                   \<and> snd (o_cells \<rho> ! i) =
                       (if day_offset (o_start \<rho>) \<le> int i + 1 \<and> int i + 1 \<le> day_offset (o_end \<rho>)
                        then (if o_status \<rho> = STATUS_DONE then MARK_DONE
                              else if day_offset (o_start \<rho>) = day_offset (o_end \<rho>)
                                   then MARK_POINT else MARK_SPAN)
                        else []))
               \<and> int (length (filter (\<lambda>(l, m). m \<noteq> []) (o_cells \<rho>)))
                     = day_offset (o_end \<rho>) - day_offset (o_start \<rho>) + 1
               \<and> 1 \<le> day_offset (o_end \<rho>) - day_offset (o_start \<rho>) + 1
               \<and> day_offset (o_end \<rho>) - day_offset (o_start \<rho>) + 1 \<le> MAX_SCHEDULE_DAYS)"
proof -
  define nrows where "nrows = map (normalise_daily P df) (df_rows df)"
  define N where "N = window_days nrows"
  define ls where "ls = date_labels_of N"
  define t where "t = make_table (map (daily_row P df ls) (enumerate 1 (sort_key daily_key nrows)))"
  have built: "build_schedule_table P df = Inr t"
    unfolding t_def ls_def N_def nrows_def by (rule build_schedule_table_Inr [OF assms])
  have N: "127 \<le> N" "N \<le> 180"
    unfolding N_def nrows_def by (rule window_days_bounds [OF assms(1)])+
  have dist: "distinct ls"
    unfolding ls_def using N(2) by (rule distinct_date_labels_of)
  have len: "length ls = nat N"
    by (simp add: ls_def length_date_labels_of)
  have "length (sort_key daily_key nrows) = length (df_rows df)"
    by (simp add: nrows_def)
  with assms(1) have nonempty: "sort_key daily_key nrows \<noteq> []"
    by (metis length_0_conv)
  have cols: "other_columns t = ls"
    unfolding t_def using dist nonempty by (rule other_columns_daily)
  have rows: "t_rows t = map (daily_row P df ls) (enumerate 1 (sort_key daily_key nrows))"
    by (simp add: t_def t_rows_make_table)
  have each: "map fst (o_cells \<rho>) = ls
      \<and> (\<forall>i < length ls.
             ls ! i = strftime_md (PROJECT_START + int i)
           \<and> snd (o_cells \<rho> ! i) =
               (if day_offset (o_start \<rho>) \<le> int i + 1 \<and> int i + 1 \<le> day_offset (o_end \<rho>)
                then (if o_status \<rho> = STATUS_DONE then MARK_DONE
                      else if day_offset (o_start \<rho>) = day_offset (o_end \<rho>)
                           then MARK_POINT else MARK_SPAN)
                else []))
      \<and> int (length (filter (\<lambda>(l, m). m \<noteq> []) (o_cells \<rho>)))
             = day_offset (o_end \<rho>) - day_offset (o_start \<rho>) + 1
      \<and> 1 \<le> day_offset (o_end \<rho>) - day_offset (o_start \<rho>) + 1
      \<and> day_offset (o_end \<rho>) - day_offset (o_start \<rho>) + 1 \<le> MAX_SCHEDULE_DAYS"
    if "\<rho> \<in> set (t_rows t)" for \<rho>
  proof -
    from that obtain n r where r: "r \<in> set (df_rows df)"
      and \<rho>: "\<rho> = daily_row P df ls (n, normalise_daily P df r)"
      unfolding rows nrows_def by (rule in_set_daily_rows)
    define s where "s = day_offset (fst (daily_dates P df r))"
    define e where "e = day_offset (snd (daily_dates P df r))"
    have os: "day_offset (o_start \<rho>) = s" and oe: "day_offset (o_end \<rho>) = e"
      by (simp_all add: \<rho> daily_row_def Let_def normalise_daily_simps s_def e_def)
    have cells: "o_cells \<rho> = zip ls (map (day_mark (o_status \<rho>) s e) [0..<length ls])"
      unfolding \<rho> s_def e_def
      using daily_row_cells [OF dist, of P df n "normalise_daily P df r"]
      by (simp add: normalise_daily_simps)
    have s1: "1 \<le> s" and e180: "e \<le> MAX_SCHEDULE_DAYS"
      using day_offset_range by (simp_all add: s_def e_def)
    have se: "s \<le> e"
      unfolding s_def e_def by (rule day_offset_mono) (rule daily_dates_ordered)
    have eN: "e \<le> int (length ls)"
      using window_days_bounds(3) [OF assms(1) r, of P] N(1) by (simp add: e_def len N_def nrows_def)
    have c1: "map fst (o_cells \<rho>) = ls"
      by (simp add: cells)
    have c2: "ls ! i = strftime_md (PROJECT_START + int i)
           \<and> snd (o_cells \<rho> ! i) =
               (if s \<le> int i + 1 \<and> int i + 1 \<le> e
                then (if o_status \<rho> = STATUS_DONE then MARK_DONE
                      else if s = e then MARK_POINT else MARK_SPAN)
                else [])" if "i < length ls" for i
    proof -
      from that have "ls ! i = strftime_md (PROJECT_START + int i)"
        unfolding ls_def by (simp add: nth_date_labels_of length_date_labels_of)
      moreover from that have "snd (o_cells \<rho> ! i) = day_mark (o_status \<rho>) s e i"
        by (simp add: cells)
      ultimately show ?thesis
        by (simp add: day_mark_def Let_def)
    qed
    have c3: "int (length (filter (\<lambda>(l, m). m \<noteq> []) (o_cells \<rho>))) = e - s + 1"
      unfolding cells using s1 se eN by (rule marked_count)
    from s1 se e180 have c4: "1 \<le> e - s + 1" "e - s + 1 \<le> MAX_SCHEDULE_DAYS"
      by simp_all
    from c1 c2 c3 c4 show ?thesis
      unfolding os oe by blast
  qed
  have count: "length (t_rows t) = length (df_rows df)"
    by (simp add: rows nrows_def)
  have wide: "127 \<le> length ls"
    using N(1) by (simp add: len)
  from built count wide dist each show ?thesis
    unfolding cols [symmetric] by blast
qed

lemma mono_day_offset: "mono day_offset"
  by (rule monoI) (rule day_offset_mono)

text \<open>
  On such a frame the day columns are the labels of the days from the project start through
  \<open>max BASE_END (PROJECT_START + (M - 1))\<close>, where \<open>M\<close> is the largest end offset: 127 columns
  when no task ends after \<open>BASE_END\<close>, otherwise the day count from the project start to the
  latest end date plus one, capped at \<open>MAX_SCHEDULE_DAYS\<close>.
\<close>

lemma daily_window_general:
  assumes "df_rows df \<noteq> []" and "{Phase, Title, StartDate, EndDate} \<subseteq> set (df_columns df)"
    and "\<not> no_end_date P df"
  shows "\<exists>t. build_schedule_table P df = Inr t
           \<and> (let E = Max (set (map (\<lambda>r. snd (daily_dates P df r)) (df_rows df)));
                   M = Max (set (map (\<lambda>r. day_offset (snd (daily_dates P df r))) (df_rows df)));
                   window_end = max BASE_END (PROJECT_START + (M - 1))
               in other_columns t = date_labels_of ((window_end - PROJECT_START) + 1)
                \<and> distinct (other_columns t)
                \<and> int (length (other_columns t)) = (window_end - PROJECT_START) + 1
                \<and> M = day_offset E
                \<and> int (length (other_columns t))
                     = (if E \<le> BASE_END then (BASE_END - PROJECT_START) + 1
                        else min MAX_SCHEDULE_DAYS ((E - PROJECT_START) + 1)))"
proof -
  define nrows where "nrows = map (normalise_daily P df) (df_rows df)"
  define N where "N = window_days nrows"
  define ls where "ls = date_labels_of N"
  define t where "t = make_table (map (daily_row P df ls) (enumerate 1 (sort_key daily_key nrows)))"
  define E where "E = Max (set (map (\<lambda>r. snd (daily_dates P df r)) (df_rows df)))"
  define M where "M = Max (set (map (\<lambda>r. day_offset (snd (daily_dates P df r))) (df_rows df)))"
  define window_end where "window_end = max BASE_END (PROJECT_START + (M - 1))"
  have built: "build_schedule_table P df = Inr t"
    unfolding t_def ls_def N_def nrows_def by (rule build_schedule_table_Inr [OF assms])
  have N: "127 \<le> N" "N \<le> 180"
    unfolding N_def nrows_def by (rule window_days_bounds [OF assms(1)])+
  have dist: "distinct ls"
    unfolding ls_def using N(2) by (rule distinct_date_labels_of)
  have "length (sort_key daily_key nrows) = length (df_rows df)"
    by (simp add: nrows_def)
  with assms(1) have nonempty: "sort_key daily_key nrows \<noteq> []"
    by (metis length_0_conv)
  have cols: "other_columns t = ls"
    unfolding t_def using dist nonempty by (rule other_columns_daily)
  have NM: "N = max 127 M"
    unfolding N_def nrows_def M_def by (rule window_days_eq [OF assms(1)])
  have win: "(window_end - PROJECT_START) + 1 = N"
    by (simp add: window_end_def NM PROJECT_START_eq BASE_END_eq max_def)
  have ME: "M = day_offset E"
  proof -
    have "day_offset (Max ((\<lambda>r. snd (daily_dates P df r)) ` set (df_rows df)))
            = Max (day_offset ` (\<lambda>r. snd (daily_dates P df r)) ` set (df_rows df))"
      using assms(1) by (intro mono_Max_commute mono_day_offset) auto
    then show ?thesis
      by (simp add: M_def E_def image_image)
  qed
  have count: "int (length ls) = N"
    using N(1) by (simp add: ls_def length_date_labels_of)
  have cases: "N = (if E \<le> BASE_END then (BASE_END - PROJECT_START) + 1
                    else min MAX_SCHEDULE_DAYS ((E - PROJECT_START) + 1))"
    unfolding NM ME
    by (simp add: day_offset_def clip_def PROJECT_START_eq BASE_END_eq MAX_SCHEDULE_DAYS_def)
  have "other_columns t = date_labels_of ((window_end - PROJECT_START) + 1)
      \<and> distinct (other_columns t)
      \<and> int (length (other_columns t)) = (window_end - PROJECT_START) + 1
      \<and> M = day_offset E
      \<and> int (length (other_columns t))
           = (if E \<le> BASE_END then (BASE_END - PROJECT_START) + 1
              else min MAX_SCHEDULE_DAYS ((E - PROJECT_START) + 1))"
    unfolding cols win using dist count ME cases by (simp add: ls_def)
  with built show ?thesis
    unfolding E_def M_def window_end_def Let_def by blast
qed

section \<open>Tasks without an end date\<close>

lemma blank_end_dates:
  assumes "\<forall>r \<in> set (df_rows df). r EndDate = Blank"
  shows "no_end_date P df"
  using assms
  by (auto simp: no_end_date_def list_all_iff parsed_date_def to_datetime_coerce_def dt_date_def)

text \<open>
  Claim C1 fails on the code. The builder fills a missing end date with the start date, but
  when no task of the collection has an end date the subtraction of the project start from the
  end-date column is a type error: for the two tasks of \<open>demo_open_two\<close> there is no table, and
  so no row per record, no order and no sequence numbers.
\<close>

theorem daily_raises_without_end_dates:
  "length (df_rows demo_open_two) = 2
   \<and> build_schedule_table P demo_open_two = Inl TypeError"
proof -
  have "no_end_date P demo_open_two"
    by (rule blank_end_dates) (simp add: demo_open_two_def task_row_def)
  then show ?thesis
    by (simp add: build_schedule_table_def df_empty_def demo_open_two_def TASK_COLUMNS_def)
qed


text \<open>
  Claim C3 fails on the code. A single task inside the default window with no end date should
  give the day columns of the default window, through \<open>BASE_END\<close>; the builder raises a type
  error and produces no column.
\<close>

theorem daily_raises_inside_default_window:
  "length (df_rows demo_open_floor) = 1
   \<and> build_schedule_table P demo_open_floor = Inl TypeError"
proof -
  have "no_end_date P demo_open_floor"
    by (rule blank_end_dates) (simp add: demo_open_floor_def task_row_def)
  then show ?thesis
    by (simp add: build_schedule_table_def df_empty_def demo_open_floor_def TASK_COLUMNS_def)
qed

section \<open>Properties of the normalizer\<close>

lemma set_add_col: "set (add_col c cols) = insert c (set cols)"
  by (auto simp: add_col_def)

lemma reclip_eq: "reclip P v = clip 1 (of_int MAX_SCHEDULE_DAYS) v"
  by (simp add: reclip_def to_numeric_def fillna_def)

lemma reclip_range: "1 \<le> reclip P v \<and> reclip P v \<le> of_int MAX_SCHEDULE_DAYS"
  by (simp add: reclip_eq clip_def MAX_SCHEDULE_DAYS_def)

lemma load_tasks_Inr:
  assumes "data = [] \<or> {Status, Phase, Title} \<subseteq> set (df_columns (sheet_frame data))"
  shows "load_tasks P data =
           Inr \<lparr>df_columns = fold add_col [Day, StartDay, EndDay, StartDate, EndDate]
                                (df_columns (sheet_frame data)),
                 df_rows = map (load_row P (sheet_frame data)) (df_rows (sheet_frame data))\<rparr>"
  using assms
  by (cases "data = []")
    (auto simp: load_tasks_def sheet_frame_def Let_def EMPTY_SHEET_COLUMNS_def)

lemma load_tasks_rows:
  assumes "load_tasks P data = Inr df"
  shows "df_rows df = map (load_row P (sheet_frame data)) (df_rows (sheet_frame data))"
    and "set (df_columns df)
           = {Day, StartDay, EndDay, StartDate, EndDate} \<union> set (df_columns (sheet_frame data))"
    and "{Status, Phase, Title} \<subseteq> set (df_columns (sheet_frame data))"
  using assms
  by (auto simp: load_tasks_def Let_def set_add_col split: if_splits)

lemma sheet_frame_length: "length (df_rows (sheet_frame data)) = length data"
  by (simp add: sheet_frame_def frame_of_records_def)

lemma load_tasks_nth:
  assumes "load_tasks P data = Inr df" and "i < length data"
  shows "df_rows df ! i = load_row P (sheet_frame data) (df_rows (sheet_frame data) ! i)"
  using assms by (simp add: load_tasks_rows(1) sheet_frame_length)

lemma frame_cell_column:
  assumes "i < length data" and "(df_rows (sheet_frame data) ! i) c \<noteq> Blank"
  shows "c \<in> set (df_columns (sheet_frame data))"
proof -
  from assms(1) have ne: "data \<noteq> []" by auto
  from assms have "map_of (data ! i) c \<noteq> None"
    by (auto simp: sheet_frame_def frame_of_records_def ne split: option.splits)
  then have "c \<in> fst ` set (data ! i)"
    by (simp add: map_of_eq_None_iff)
  with assms(1) have "c \<in> set (concat (map (map fst) data))"
    by (auto simp: in_set_conv_nth intro!: bexI [of _ "data ! i"])
  then show ?thesis
    by (simp add: sheet_frame_def frame_of_records_def ne)
qed

lemma load_row_days:
  "\<exists>d s e. load_row P sf r Day = Num d \<and> load_row P sf r StartDay = Num s
       \<and> load_row P sf r EndDay = Num e
       \<and> 1 \<le> d \<and> d \<le> of_int MAX_SCHEDULE_DAYS \<and> 1 \<le> s \<and> s \<le> of_int MAX_SCHEDULE_DAYS
       \<and> 1 \<le> e \<and> e \<le> of_int MAX_SCHEDULE_DAYS"
  using reclip_range by (simp add: load_row_def Let_def)

lemma load_row_number:
  assumes "c \<in> {Day, StartDay, EndDay}" and "c \<in> set (df_columns sf)" and "r c = Num q"
  shows "load_row P sf r c = Num (clip 1 (of_int MAX_SCHEDULE_DAYS) q)"
  using assms by (auto simp: load_row_def Let_def reclip_eq to_numeric_def fillna_def)

lemma build_schedule_table_InrD:
  assumes "build_schedule_table P df = Inr t" and "\<not> df_empty df"
  shows "df_rows df \<noteq> []" and "{Phase, Title, StartDate, EndDate} \<subseteq> set (df_columns df)"
    and "\<not> no_end_date P df"
  using assms by (auto simp: build_schedule_table_def df_empty_def split: if_splits)

text \<open>
  Claim C7. Every row that the normalizer outputs has its three day offsets (Day, StartDay,
  EndDay) as numbers between 1 and \<open>MAX_SCHEDULE_DAYS\<close>, and a number requested in the sheet
  comes out clipped: kept when it lies in the interval, 1 when it is below, \<open>MAX_SCHEDULE_DAYS\<close>
  when it is above. The offsets the daily builder recomputes for a row are the day counts of
  its dates from the project start plus one, clipped in the same way, and the cells the
  builder marks in its table are exactly those between the clipped offsets. The witness is a
  record that asks for start day 500: it leaves the normalizer with start day 180.
\<close>

theorem offsets_clipped:
  assumes "load_tasks P data = Inr df" and "i < length data"
  shows "(let r0 = df_rows (sheet_frame data) ! i; r = df_rows df ! i;
              hi = of_int MAX_SCHEDULE_DAYS;
              cl = (\<lambda>q::rat. if q < 1 then 1 else if hi < q then hi else q)
          in (\<exists>d s e. r Day = Num d \<and> r StartDay = Num s \<and> r EndDay = Num e
                 \<and> 1 \<le> d \<and> d \<le> hi \<and> 1 \<le> s \<and> s \<le> hi \<and> 1 \<le> e \<and> e \<le> hi)
           \<and> (\<forall>q. r0 Day = Num q \<longrightarrow> r Day = Num (cl q))
           \<and> (\<forall>q. r0 StartDay = Num q \<longrightarrow> r StartDay = Num (cl q))
           \<and> (\<forall>q. r0 EndDay = Num q \<longrightarrow> r EndDay = Num (cl q)))
       \<and> (let n = normalise_daily P df' r';
               cl = (\<lambda>k::int. if k < 1 then 1
                               else if MAX_SCHEDULE_DAYS < k then MAX_SCHEDULE_DAYS else k)
           in d_start_day n = cl ((d_start n - PROJECT_START) + 1)
            \<and> d_end_day n = cl ((d_end n - PROJECT_START) + 1))
       \<and> (\<not> df_empty df' \<longrightarrow> build_schedule_table P df' = Inr t \<longrightarrow>
             (let cl = (\<lambda>k::int. if k < 1 then 1
                               else if MAX_SCHEDULE_DAYS < k then MAX_SCHEDULE_DAYS else k)
              in length (t_rows t) = length (df_rows df')
               \<and> 127 \<le> length (other_columns t)
               \<and> (\<forall>\<rho> \<in> set (t_rows t). \<forall>j < length (other_columns t).
                     (snd (o_cells \<rho> ! j) \<noteq> [])
                       = (cl ((o_start \<rho> - PROJECT_START) + 1) \<le> int j + 1
                          \<and> int j + 1 \<le> cl ((o_end \<rho> - PROJECT_START) + 1)))))"
proof -
  define r0 where "r0 = df_rows (sheet_frame data) ! i"
  define r where "r = df_rows df ! i"
  define hi :: rat where "hi = of_int MAX_SCHEDULE_DAYS"
  define cl where "cl = (\<lambda>q::rat. if q < 1 then 1 else if hi < q then hi else q)"
  define cli where "cli = (\<lambda>k::int. if k < 1 then 1
                               else if MAX_SCHEDULE_DAYS < k then MAX_SCHEDULE_DAYS else k)"
  have r: "r = load_row P (sheet_frame data) r0"
    unfolding r_def r0_def using assms by (rule load_tasks_nth)
  have cl: "cl q = clip 1 (of_int MAX_SCHEDULE_DAYS) q" for q
    by (simp add: cl_def hi_def clip_def)
  have cli: "cli k = clip 1 MAX_SCHEDULE_DAYS k" for k
    by (simp add: cli_def clip_def)
  have range: "\<exists>d s e. r Day = Num d \<and> r StartDay = Num s \<and> r EndDay = Num e
                 \<and> 1 \<le> d \<and> d \<le> hi \<and> 1 \<le> s \<and> s \<le> hi \<and> 1 \<le> e \<and> e \<le> hi"
    unfolding r hi_def by (rule load_row_days)
  have kept: "r c = Num (cl q)" if "c \<in> {Day, StartDay, EndDay}" and "r0 c = Num q" for c q
  proof -
    from that(2) have "(df_rows (sheet_frame data) ! i) c \<noteq> Blank"
      by (simp add: r0_def)
    with assms(2) have "c \<in> set (df_columns (sheet_frame data))"
      by (rule frame_cell_column)
    with that show ?thesis
      unfolding r cl by (intro load_row_number)
  qed
  have part1: "(\<exists>d s e. r Day = Num d \<and> r StartDay = Num s \<and> r EndDay = Num e
                 \<and> 1 \<le> d \<and> d \<le> hi \<and> 1 \<le> s \<and> s \<le> hi \<and> 1 \<le> e \<and> e \<le> hi)
           \<and> (\<forall>q. r0 Day = Num q \<longrightarrow> r Day = Num (cl q))
           \<and> (\<forall>q. r0 StartDay = Num q \<longrightarrow> r StartDay = Num (cl q))
           \<and> (\<forall>q. r0 EndDay = Num q \<longrightarrow> r EndDay = Num (cl q))"
    using range kept by simp
  have part2: "d_start_day (normalise_daily P df' r')
                 = cli ((d_start (normalise_daily P df' r') - PROJECT_START) + 1)
            \<and> d_end_day (normalise_daily P df' r')
                 = cli ((d_end (normalise_daily P df' r') - PROJECT_START) + 1)"
    by (simp add: normalise_daily_simps day_offset_def cli)
  have part3: "length (t_rows t) = length (df_rows df')
               \<and> 127 \<le> length (other_columns t)
               \<and> (\<forall>\<rho> \<in> set (t_rows t). \<forall>j < length (other_columns t).
                     (snd (o_cells \<rho> ! j) \<noteq> [])
                       = (cli ((o_start \<rho> - PROJECT_START) + 1) \<le> int j + 1
                          \<and> int j + 1 \<le> cli ((o_end \<rho> - PROJECT_START) + 1)))"
    if ne: "\<not> df_empty df'" and built: "build_schedule_table P df' = Inr t"
  proof -
    note pre = build_schedule_table_InrD [OF built ne]
    from daily_cells_general [OF pre] built
    have len: "length (t_rows t) = length (df_rows df')" and wide: "127 \<le> length (other_columns t)"
      and cells: "\<And>\<rho> j. \<rho> \<in> set (t_rows t) \<Longrightarrow> j < length (other_columns t) \<Longrightarrow>
              snd (o_cells \<rho> ! j) =
                (if day_offset (o_start \<rho>) \<le> int j + 1 \<and> int j + 1 \<le> day_offset (o_end \<rho>)
                 then (if o_status \<rho> = STATUS_DONE then MARK_DONE
                       else if day_offset (o_start \<rho>) = day_offset (o_end \<rho>)
                            then MARK_POINT else MARK_SPAN)
                 else [])"
      by auto
    have "(snd (o_cells \<rho> ! j) \<noteq> [])
            = (cli ((o_start \<rho> - PROJECT_START) + 1) \<le> int j + 1
               \<and> int j + 1 \<le> cli ((o_end \<rho> - PROJECT_START) + 1))"
      if "\<rho> \<in> set (t_rows t)" "j < length (other_columns t)" for \<rho> j
      unfolding cells [OF that] cli
      by (simp add: day_offset_def MARK_DONE_def MARK_POINT_def MARK_SPAN_def)
    with len wide show ?thesis
      by blast
  qed
  from part1 part2 part3 show ?thesis
    unfolding r0_def r_def hi_def cl_def cli_def Let_def by blast
qed


lemma sample_dates:
  "ymd2ord 2025 11 25 = 739580" "ymd2ord 2025 11 27 = 739582" "ymd2ord 2025 12 1 = 739586"
  "ymd2ord 2025 12 5 = 739590" "ymd2ord 2026 4 30 = 739736"
  by (simp_all add: ymd2ord_def days_before_year_def days_before_month_def
      DAYS_BEFORE_MONTH_def is_leap_def)

lemma valid_end_date:
  assumes "r \<in> set (df_rows df)" and "r EndDate = Dt d" and "612412 \<le> d" and "d \<le> 825914"
  shows "\<not> no_end_date P df"
proof -
  from assms(2-4) have "parsed_date P df EndDate r = Some d"
    by (simp add: parsed_date_def to_datetime_coerce_def in_bounds_date dt_date_def)
  with assms(1) show ?thesis
    by (auto simp: no_end_date_def list_all_iff)
qed

lemma demo_two_ready:
  "df_rows demo_two \<noteq> []" "{Phase, Title, StartDate, EndDate} \<subseteq> set (df_columns demo_two)"
  "\<not> no_end_date P demo_two" "\<not> df_empty demo_two"
proof -
  show "df_rows demo_two \<noteq> []" "{Phase, Title, StartDate, EndDate} \<subseteq> set (df_columns demo_two)"
    "\<not> df_empty demo_two"
    by (simp_all add: demo_two_def TASK_COLUMNS_def df_empty_def)
  have "task_row [80, 49] [65] STATUS_DONE (Dt (ymd2ord 2025 11 25)) (Dt (ymd2ord 2025 11 27))
          \<in> set (df_rows demo_two)"
    by (simp add: demo_two_def)
  then show "\<not> no_end_date P demo_two"
    by (rule valid_end_date [where d = 739582]) (simp_all add: task_row_def sample_dates)
qed

lemma load_sample:
  assumes "data \<noteq> []" and "{Status, Phase, Title} \<subseteq> set (df_columns (frame_of_records data))"
  shows "load_tasks P data =
           Inr \<lparr>df_columns = fold add_col [Day, StartDay, EndDay, StartDate, EndDate]
                                (df_columns (frame_of_records data)),
                 df_rows = map (load_row P (frame_of_records data))
                               (df_rows (frame_of_records data))\<rparr>"
  using assms load_tasks_Inr [of data P] by (simp add: sheet_frame_def)

theorem offsets_clipped_witness:
  "\<exists>df t. load_tasks no_parsing sheet_500 = Inr df \<and> 0 < length sheet_500
      \<and> (df_rows (sheet_frame sheet_500) ! 0) StartDay = Num 500
      \<and> (df_rows df ! 0) StartDay = Num 180
      \<and> (df_rows df ! 0) Day = Num 1 \<and> (df_rows df ! 0) EndDay = Num 180
      \<and> \<not> df_empty demo_two \<and> build_schedule_table no_parsing demo_two = Inr t
      \<and> length (t_rows t) = 2 \<and> 127 \<le> length (other_columns t)"
proof -
  define df where "df = \<lparr>df_columns = fold add_col [Day, StartDay, EndDay, StartDate, EndDate]
                                (df_columns (frame_of_records sheet_500)),
                 df_rows = map (load_row no_parsing (frame_of_records sheet_500))
                               (df_rows (frame_of_records sheet_500))\<rparr>"
  have loaded: "load_tasks no_parsing sheet_500 = Inr df"
    unfolding df_def by (rule load_sample) (simp_all add: sheet_500_def frame_of_records_def)
  have len: "0 < length sheet_500"
    by (simp add: sheet_500_def)
  have asked: "(df_rows (sheet_frame sheet_500) ! 0) StartDay = Num 500"
    by (simp add: sheet_frame_def sheet_500_def frame_of_records_def)
  obtain t where built: "build_schedule_table no_parsing demo_two = Inr t"
    using build_schedule_table_Inr [OF demo_two_ready(1-3), of no_parsing] by blast
  note inst = offsets_clipped [OF loaded len, of demo_two _ t]
  from inst asked have start: "(df_rows df ! 0) StartDay = Num 180"
    by (simp add: Let_def MAX_SCHEDULE_DAYS_def)
  have others: "(df_rows df ! 0) Day = Num 1" "(df_rows df ! 0) EndDay = Num 180"
    by (simp_all add: df_def sheet_500_def frame_of_records_def load_row_def Let_def
        reclip_eq clip_def fillna_def to_numeric_def MAX_SCHEDULE_DAYS_def)
  from inst built demo_two_ready(4) have "length (t_rows t) = length (df_rows demo_two)"
    and "127 \<le> length (other_columns t)"
    by (simp_all add: Let_def)
  then have "length (t_rows t) = 2" "127 \<le> length (other_columns t)"
    by (simp_all add: demo_two_def)
  with loaded len asked start others built demo_two_ready(4) show ?thesis
    by blast
qed

section \<open>Dates and day numbers of a normalized record\<close>

lemma load_row_dates:
  fixes P :: coercions and sf :: DataFrame and src :: row
  defines "cols \<equiv> set (df_columns sf)"
  defines "r \<equiv> load_row P sf src"
  shows "StartDate \<notin> cols \<Longrightarrow> r StartDay = Num s \<Longrightarrow> r StartDate = Ts (of_int PROJECT_START + (s - 1))"
    and "EndDate \<notin> cols \<Longrightarrow> r EndDate = r StartDate"
    and "StartDate \<in> cols \<Longrightarrow>
           r StartDate = opt_stamp_cell (to_datetime_coerce P (column sf StartDate) (src StartDate))"
    and "EndDate \<in> cols \<Longrightarrow>
           r EndDate = opt_stamp_cell (to_datetime_coerce P (column sf EndDate) (src EndDate))"
  unfolding cols_def r_def
  by (auto simp: load_row_def Let_def)

lemma day_offset_of_stamp:
  assumes "1 \<le> s" and "s \<le> of_int MAX_SCHEDULE_DAYS"
  shows "day_offset \<lfloor>of_int PROJECT_START + (s - 1)\<rfloor> = \<lfloor>s\<rfloor>"
proof -
  have "\<lfloor>of_int PROJECT_START + (s - 1)\<rfloor> = PROJECT_START + (\<lfloor>s\<rfloor> - 1)"
    by (simp add: floor_add_int [symmetric] del: floor_add_int)
  moreover from assms have "1 \<le> \<lfloor>s\<rfloor>" "\<lfloor>s\<rfloor> \<le> MAX_SCHEDULE_DAYS"
    by (simp_all add: le_floor_iff floor_le_iff) 
  ultimately show ?thesis
    by (simp add: day_offset_def clip_def)
qed

lemma sample_sheets:
  "length sheet_fraction = 1" "length sheet_dated = 1" "length sheet_days_only = 1"
  "df_columns (sheet_frame sheet_fraction) = [Phase, Title, Status, StartDay]"
  "df_columns (sheet_frame sheet_dated) = [Phase, Title, Status, StartDate, EndDate]"
  "df_columns (sheet_frame sheet_days_only) = [Phase, Title, Status, StartDay, EndDay]"
  "(df_rows (sheet_frame sheet_fraction) ! 0) StartDay = Num (5 / 2)"
  "(df_rows (sheet_frame sheet_dated) ! 0) StartDate = Dt 739590"
  "(df_rows (sheet_frame sheet_dated) ! 0) EndDate = Dt 739590"
  "(df_rows (sheet_frame sheet_dated) ! 0) Day = Blank"
  "(df_rows (sheet_frame sheet_days_only) ! 0) StartDay = Num 1"
  "(df_rows (sheet_frame sheet_days_only) ! 0) EndDay = Num 5"
  "column (sheet_frame sheet_dated) StartDate = [Dt 739590]"
  "column (sheet_frame sheet_dated) EndDate = [Dt 739590]"
  by (simp_all add: sheet_frame_def frame_of_records_def sheet_fraction_def sheet_dated_def
      sheet_days_only_def column_def sample_dates)

lemma sample_sheets_load:
  "\<exists>df. load_tasks P sheet_fraction = Inr df"
  "\<exists>df. load_tasks P sheet_dated = Inr df"
  "\<exists>df. load_tasks P sheet_days_only = Inr df"
  by (simp_all add: load_tasks_def Let_def sample_sheets)

lemma sample_offsets:
  "day_offset \<lfloor>rat_of_int PROJECT_START + (5 / 2 - 1)\<rfloor> = 2"
  "day_offset \<lfloor>rat_of_int PROJECT_START + 3 / 2\<rfloor> = 2"
  "day_offset \<lfloor>rat_of_int PROJECT_START\<rfloor> = 1"
  "day_offset \<lfloor>rat_of_int 739590\<rfloor> = 11"
proof -
  have "\<lfloor>rat_of_int PROJECT_START + 3 / 2\<rfloor> = PROJECT_START + \<lfloor>3 / 2 :: rat\<rfloor>"
    by (simp only: int_add_floor)
  also have "\<lfloor>3 / 2 :: rat\<rfloor> = 1"
    by (simp add: floor_eq_iff)
  finally have fl: "\<lfloor>rat_of_int PROJECT_START + 3 / 2\<rfloor> = PROJECT_START + 1" .
  then show "day_offset \<lfloor>rat_of_int PROJECT_START + 3 / 2\<rfloor> = 2"
    by (simp add: day_offset_def clip_def MAX_SCHEDULE_DAYS_def)
  have "rat_of_int PROJECT_START + (5 / 2 - 1) = rat_of_int PROJECT_START + 3 / 2"
    by simp
  with fl show "day_offset \<lfloor>rat_of_int PROJECT_START + (5 / 2 - 1)\<rfloor> = 2"
    by (simp add: day_offset_def clip_def MAX_SCHEDULE_DAYS_def)
  show "day_offset \<lfloor>rat_of_int PROJECT_START\<rfloor> = 1" "day_offset \<lfloor>rat_of_int 739590\<rfloor> = 11"
    by (simp_all add: day_offset_def clip_def MAX_SCHEDULE_DAYS_def PROJECT_START_eq)
qed

text \<open>
  Claim C8, as amended. Every row the normalizer outputs has a StartDay and an EndDay between 1
  and \<open>MAX_SCHEDULE_DAYS\<close>. When the sheet has no StartDate column, the start date of the row is
  the timestamp StartDay minus one days after the project start, and the day offset of that
  timestamp's calendar date is the whole part of StartDay: it is StartDay exactly when StartDay
  is a whole number. When the sheet has no EndDate column, the end date of the row is a copy of
  its start date, whatever EndDay is. When the sheet has a StartDate or an EndDate column, that
  date of the row is the conversion of the sheet's cell (the missing date when it does not
  convert), whatever the day numbers are.
\<close>

theorem normalizer_dates_and_offsets:
  assumes "load_tasks P data = Inr df" and "i < length data"
  shows "(let sf = sheet_frame data; cols = set (df_columns sf);
              r0 = df_rows sf ! i; r = df_rows df ! i
          in (\<exists>s e. r StartDay = Num s \<and> r EndDay = Num e
                \<and> 1 \<le> s \<and> s \<le> of_int MAX_SCHEDULE_DAYS
                \<and> 1 \<le> e \<and> e \<le> of_int MAX_SCHEDULE_DAYS
                \<and> (StartDate \<notin> cols \<longrightarrow>
                     r StartDate = Ts (of_int PROJECT_START + (s - 1))
                     \<and> day_offset \<lfloor>of_int PROJECT_START + (s - 1)\<rfloor> = \<lfloor>s\<rfloor>
                     \<and> ((of_int (day_offset \<lfloor>of_int PROJECT_START + (s - 1)\<rfloor>) = s)
                          = (s = of_int \<lfloor>s\<rfloor>))))
           \<and> (EndDate \<notin> cols \<longrightarrow> r EndDate = r StartDate)
           \<and> (StartDate \<in> cols \<longrightarrow>
                r StartDate
                  = opt_stamp_cell (to_datetime_coerce P (column sf StartDate) (r0 StartDate)))
           \<and> (EndDate \<in> cols \<longrightarrow>
                r EndDate
                  = opt_stamp_cell (to_datetime_coerce P (column sf EndDate) (r0 EndDate))))"
proof -
  let ?sf = "sheet_frame data"
  let ?src = "df_rows ?sf ! i"
  let ?row = "load_row P ?sf ?src"
  have row: "df_rows df ! i = ?row"
    using assms by (rule load_tasks_nth)
  from load_row_days [where P = P and sf = ?sf and r = ?src]
  obtain s e where se: "?row StartDay = Num s" "?row EndDay = Num e"
    "1 \<le> s" "s \<le> of_int MAX_SCHEDULE_DAYS" "1 \<le> e" "e \<le> of_int MAX_SCHEDULE_DAYS"
    by blast
  note off = day_offset_of_stamp [OF se(3,4)]
  have start: "?row StartDate = Ts (of_int PROJECT_START + (s - 1))
                     \<and> day_offset \<lfloor>of_int PROJECT_START + (s - 1)\<rfloor> = \<lfloor>s\<rfloor>
                     \<and> ((of_int (day_offset \<lfloor>of_int PROJECT_START + (s - 1)\<rfloor>) = s)
                          = (s = of_int \<lfloor>s\<rfloor>))"
    if "StartDate \<notin> set (df_columns ?sf)"
    using load_row_dates(1) [OF that se(1)] off by auto
  have first: "\<exists>s e. ?row StartDay = Num s \<and> ?row EndDay = Num e
                \<and> 1 \<le> s \<and> s \<le> of_int MAX_SCHEDULE_DAYS
                \<and> 1 \<le> e \<and> e \<le> of_int MAX_SCHEDULE_DAYS
                \<and> (StartDate \<notin> set (df_columns ?sf) \<longrightarrow>
                     ?row StartDate = Ts (of_int PROJECT_START + (s - 1))
                     \<and> day_offset \<lfloor>of_int PROJECT_START + (s - 1)\<rfloor> = \<lfloor>s\<rfloor>
                     \<and> ((of_int (day_offset \<lfloor>of_int PROJECT_START + (s - 1)\<rfloor>) = s)
                          = (s = of_int \<lfloor>s\<rfloor>)))"
    using se start by blast
  show ?thesis
    unfolding Let_def row
    using first load_row_dates(2-4) [where sf = ?sf and P = P and src = ?src]
    by (intro conjI impI) simp_all
qed

theorem normalizer_dates_and_offsets_witness:
  "(\<exists>df. load_tasks no_parsing sheet_fraction = Inr df \<and> 0 < length sheet_fraction
       \<and> StartDate \<notin> set (df_columns (sheet_frame sheet_fraction))
       \<and> EndDate \<notin> set (df_columns (sheet_frame sheet_fraction))
       \<and> (df_rows df ! 0) StartDay = Num (5 / 2)
       \<and> (df_rows df ! 0) StartDate = Ts (of_int PROJECT_START + (5 / 2 - 1))
       \<and> day_offset \<lfloor>rat_of_int PROJECT_START + (5 / 2 - 1)\<rfloor> = 2
       \<and> (df_rows df ! 0) EndDate = (df_rows df ! 0) StartDate)
   \<and> (\<exists>df. load_tasks no_parsing sheet_dated = Inr df \<and> 0 < length sheet_dated
       \<and> StartDate \<in> set (df_columns (sheet_frame sheet_dated))
       \<and> EndDate \<in> set (df_columns (sheet_frame sheet_dated))
       \<and> (df_rows df ! 0) StartDate = Ts 739590
       \<and> (df_rows df ! 0) EndDate = Ts 739590)"
proof -
  have cols: "StartDate \<notin> set (df_columns (sheet_frame sheet_fraction))"
    "EndDate \<notin> set (df_columns (sheet_frame sheet_fraction))"
    "StartDate \<in> set (df_columns (sheet_frame sheet_dated))"
    "EndDate \<in> set (df_columns (sheet_frame sheet_dated))"
    and len: "0 < length sheet_fraction" "0 < length sheet_dated"
    by (simp_all add: sample_sheets)
  from sample_sheets_load(1) obtain df
    where loaded: "load_tasks no_parsing sheet_fraction = Inr df" ..
  note inst = normalizer_dates_and_offsets [OF loaded len(1), unfolded Let_def]
  from inst [THEN conjunct1] obtain s e
    where s: "(df_rows df ! 0) StartDay = Num s"
      and imp: "StartDate \<notin> set (df_columns (sheet_frame sheet_fraction)) \<longrightarrow>
           (df_rows df ! 0) StartDate = Ts (of_int PROJECT_START + (s - 1))
           \<and> day_offset \<lfloor>of_int PROJECT_START + (s - 1)\<rfloor> = \<lfloor>s\<rfloor>
           \<and> ((of_int (day_offset \<lfloor>of_int PROJECT_START + (s - 1)\<rfloor>) = s)
                          = (s = of_int \<lfloor>s\<rfloor>))"
    by (elim exE conjE)
  have "(df_rows df ! 0) StartDay = Num (clip 1 (of_int MAX_SCHEDULE_DAYS) (5 / 2))"
    unfolding load_tasks_nth [OF loaded len(1)]
    by (rule load_row_number) (simp_all add: sample_sheets)
  with s have s_eq: "s = 5 / 2"
    by (simp add: clip_def MAX_SCHEDULE_DAYS_def)
  from mp [OF imp cols(1)]
  have start: "(df_rows df ! 0) StartDate = Ts (of_int PROJECT_START + (5 / 2 - 1))"
    unfolding s_eq by (rule conjunct1)
  note copy = mp [OF inst [THEN conjunct2, THEN conjunct1] cols(2)]
  from s have start_day: "(df_rows df ! 0) StartDay = Num (5 / 2)"
    by (simp only: s_eq)
  have a: "\<exists>df. load_tasks no_parsing sheet_fraction = Inr df \<and> 0 < length sheet_fraction
       \<and> StartDate \<notin> set (df_columns (sheet_frame sheet_fraction))
       \<and> EndDate \<notin> set (df_columns (sheet_frame sheet_fraction))
       \<and> (df_rows df ! 0) StartDay = Num (5 / 2)
       \<and> (df_rows df ! 0) StartDate = Ts (of_int PROJECT_START + (5 / 2 - 1))
       \<and> day_offset \<lfloor>rat_of_int PROJECT_START + (5 / 2 - 1)\<rfloor> = 2
       \<and> (df_rows df ! 0) EndDate = (df_rows df ! 0) StartDate"
    by (intro exI [of _ df] conjI) (rule loaded len cols start_day start sample_offsets copy)+
  from sample_sheets_load(2) obtain df'
    where loaded': "load_tasks no_parsing sheet_dated = Inr df'" ..
  note inst' = normalizer_dates_and_offsets [OF loaded' len(2), unfolded Let_def]
  have conv: "opt_stamp_cell (to_datetime_coerce no_parsing [Dt 739590] (Dt 739590)) = Ts 739590"
    using in_bounds_date [of 739590] by (simp add: opt_stamp_cell_def to_datetime_coerce_def)
  from mp [OF inst' [THEN conjunct2, THEN conjunct2, THEN conjunct1] cols(3)]
  have sd: "(df_rows df' ! 0) StartDate = Ts 739590"
    by (simp only: sample_sheets conv)
  from mp [OF inst' [THEN conjunct2, THEN conjunct2, THEN conjunct2] cols(4)]
  have ed: "(df_rows df' ! 0) EndDate = Ts 739590"
    by (simp only: sample_sheets conv)
  have b: "\<exists>df. load_tasks no_parsing sheet_dated = Inr df \<and> 0 < length sheet_dated
       \<and> StartDate \<in> set (df_columns (sheet_frame sheet_dated))
       \<and> EndDate \<in> set (df_columns (sheet_frame sheet_dated))
       \<and> (df_rows df ! 0) StartDate = Ts 739590
       \<and> (df_rows df ! 0) EndDate = Ts 739590"
    by (intro exI [of _ df'] conjI) (rule loaded' len cols sd ed)+
  from a b show ?thesis ..
qed

text \<open>
  The statement of claim C8 as first written fails on three records: one with dates and no day
  numbers leaves the normalizer with StartDay 1 and a start date whose offset is 11; one with
  StartDay 1 and EndDay 5 and no dates leaves it with an end date whose offset is 1; one with
  StartDay 5/2 leaves it with a start date whose offset is 2.
\<close>

theorem dates_and_offsets_disagree:
  "(\<exists>df. load_tasks no_parsing sheet_dated = Inr df
       \<and> (df_rows df ! 0) StartDay = Num 1
       \<and> (df_rows df ! 0) StartDate = Ts 739590
       \<and> day_offset \<lfloor>rat_of_int 739590\<rfloor> = 11)
   \<and> (\<exists>df. load_tasks no_parsing sheet_days_only = Inr df
       \<and> (df_rows df ! 0) EndDay = Num 5
       \<and> (df_rows df ! 0) EndDate = Ts (of_int PROJECT_START)
       \<and> day_offset \<lfloor>rat_of_int PROJECT_START\<rfloor> = 1)
   \<and> (\<exists>df. load_tasks no_parsing sheet_fraction = Inr df
       \<and> (df_rows df ! 0) StartDay = Num (5 / 2)
       \<and> (df_rows df ! 0) StartDate = Ts (of_int PROJECT_START + 3 / 2)
       \<and> day_offset \<lfloor>rat_of_int PROJECT_START + 3 / 2\<rfloor> = 2)"
proof -
  have len: "0 < length sheet_fraction" "0 < length sheet_dated" "0 < length sheet_days_only"
    by (simp_all add: sample_sheets)
  have one: "reclip no_parsing 1 = 1" "reclip no_parsing 5 = 5" "reclip no_parsing (5 / 2) = 5 / 2"
    by (simp_all add: reclip_eq clip_def MAX_SCHEDULE_DAYS_def)
  from sample_sheets_load(2) obtain df
    where loaded: "load_tasks no_parsing sheet_dated = Inr df" ..
  have "(df_rows df ! 0) StartDay = Num 1 \<and> (df_rows df ! 0) StartDate = Ts 739590"
    unfolding load_tasks_nth [OF loaded len(2)]
    using in_bounds_date [of 739590]
    by (simp add: load_row_def Let_def sample_sheets fillna_def to_numeric_def one
        opt_stamp_cell_def to_datetime_coerce_def)
  with loaded have a: "\<exists>df. load_tasks no_parsing sheet_dated = Inr df
       \<and> (df_rows df ! 0) StartDay = Num 1
       \<and> (df_rows df ! 0) StartDate = Ts 739590
       \<and> day_offset \<lfloor>rat_of_int 739590\<rfloor> = 11"
    using sample_offsets(4) by blast
  from sample_sheets_load(3) obtain df'
    where loaded': "load_tasks no_parsing sheet_days_only = Inr df'" ..
  have "(df_rows df' ! 0) EndDay = Num 5 \<and> (df_rows df' ! 0) EndDate = Ts (of_int PROJECT_START)"
    unfolding load_tasks_nth [OF loaded' len(3)]
    by (simp add: load_row_def Let_def sample_sheets fillna_def to_numeric_def one)
  with loaded' have b: "\<exists>df. load_tasks no_parsing sheet_days_only = Inr df
       \<and> (df_rows df ! 0) EndDay = Num 5
       \<and> (df_rows df ! 0) EndDate = Ts (of_int PROJECT_START)
       \<and> day_offset \<lfloor>rat_of_int PROJECT_START\<rfloor> = 1"
    using sample_offsets(3) by blast
  from sample_sheets_load(1) obtain df''
    where loaded'': "load_tasks no_parsing sheet_fraction = Inr df''" ..
  have "(df_rows df'' ! 0) StartDay = Num (5 / 2)
      \<and> (df_rows df'' ! 0) StartDate = Ts (of_int PROJECT_START + 3 / 2)"
    unfolding load_tasks_nth [OF loaded'' len(1)]
    by (simp add: load_row_def Let_def sample_sheets fillna_def to_numeric_def one)
  with loaded'' have c: "\<exists>df. load_tasks no_parsing sheet_fraction = Inr df
       \<and> (df_rows df ! 0) StartDay = Num (5 / 2)
       \<and> (df_rows df ! 0) StartDate = Ts (of_int PROJECT_START + 3 / 2)
       \<and> day_offset \<lfloor>rat_of_int PROJECT_START + 3 / 2\<rfloor> = 2"
    using sample_offsets(2) by blast
  from a b c show ?thesis
    by (intro conjI)
qed

section \<open>Missing fields and malformed values\<close>











section \<open>Empty input\<close>

lemma load_tasks_empty_sheet:
  "load_tasks P [] =
     Inr \<lparr>df_columns = EMPTY_SHEET_COLUMNS @ [StartDate, EndDate], df_rows = []\<rparr>"
  by (simp add: load_tasks_def sheet_frame_def EMPTY_SHEET_COLUMNS_def add_col_def)

text \<open>
  Claim C9. On a frame without rows the daily and the weekly builder both return the empty
  table, not an error; the frame the normalizer makes of an empty sheet is such a frame, and
  the list view numbering of it is the empty view.
\<close>

theorem builders_empty_collection:
  "build_schedule_table P (df\<lparr>df_rows := []\<rparr>) = Inr empty_table
   \<and> build_schedule_table_weekly P (df\<lparr>df_rows := []\<rparr>) = Inr empty_table
   \<and> (\<exists>df0. load_tasks P [] = Inr df0 \<and> df_rows df0 = []
          \<and> build_schedule_table P df0 = Inr empty_table
          \<and> build_schedule_table_weekly P df0 = Inr empty_table
          \<and> list_view P df0 = Inr [])"
  by (simp add: load_tasks_empty_sheet build_schedule_table_def build_schedule_table_weekly_def
      df_empty_def list_view_def EMPTY_SHEET_COLUMNS_def)

end
